theory Spec2Isabelle
  imports Complex_Main
begin

section \<open>The ADK agent gateway (main.py)\<close>

text \<open>
  The gateway receives an \<open>AgentRequest\<close>, looks the agent up in \<open>AGENT_REGISTRY\<close>,
  creates a session on the ADK server, posts the message to \<open>/run\<close> and picks the final
  answer out of the list of events that comes back. The model below follows main.py
  function by function. Values that come from outside (the clock, the ADK server's
  answers) are fields of a \<open>world\<close>; every outbound POST is recorded in a list of calls
  that each function returns beside its result; every Python exception is a value.
  The two \<open>logging.error\<close> lines write to the log only and are left out.
\<close>

subsection \<open>JSON values as Python sees them\<close>

text \<open>
  \<open>response.json()\<close> yields \<open>None\<close>, a bool, a number, a str, a list or a dict with str
  keys. The code never computes with a number (it only tests truthiness), so one
  constructor carries ints and floats alike. A dict is an association list read with
  \<open>map_of\<close>.
\<close>

datatype json =
    JNull
  | JBool bool
  | JNum rat
  | JStr string
  | JArr "json list"
  | JObj "(string \<times> json) list"

subsection \<open>Exceptions and HTTP data\<close>

record http_response =
  status_code :: int
  resp_text :: string
  resp_json :: "json option"

text \<open>
  \<open>resp_json\<close> is what \<open>response.json()\<close> returns; \<open>None\<close> stands for a body that is not
  JSON, where \<open>response.json()\<close> raises.
\<close>

datatype exn =
    HTTPStatusError http_response
  | TimeoutException
  | RequestError
  | JSONDecodeError
  | AttributeError
  | TypeError
  | KeyError
  | IndexError
  | ValidationError

text \<open>The detail of an \<open>HTTPException\<close>: a string built by the gateway, or \<open>str(e)\<close>.\<close>

datatype detail = Text string | StrOf exn

datatype http_exception = HTTPException int detail

record post_call =
  url :: string
  headers :: "(string \<times> string) list"
  payload :: json
  timeout :: rat

text \<open>What \<open>await client.post(...)\<close> does: it returns a response, or httpx raises.\<close>

datatype post_result = Responded http_response | TimedOut | Failed

record world =
  clock :: rat
  post :: "post_call \<Rightarrow> post_result"

subsection \<open>The registry\<close>

definition AGENT_REGISTRY :: "(string \<times> string) list" where
  "AGENT_REGISTRY =
     [(''greeting_agent'', ''http://localhost:8000''),
      (''jarvis_agent'', ''http://localhost:8000''),
      (''calc_agent'', ''http://localhost:8000'')]"

subsection \<open>Python primitives used by the code\<close>

fun truthy :: "json \<Rightarrow> bool" where
  "truthy JNull = False"
| "truthy (JBool b) = b"
| "truthy (JNum n) = (n \<noteq> 0)"
| "truthy (JStr s) = (s \<noteq> [])"
| "truthy (JArr xs) = (xs \<noteq> [])"
| "truthy (JObj kvs) = (kvs \<noteq> [])"

definition dict_get :: "(string \<times> json) list \<Rightarrow> string \<Rightarrow> json \<Rightarrow> json" where
  \<comment> \<open>\<open>d.get(k, default)\<close>; \<open>d.get(k)\<close> is \<open>dict_get d k JNull\<close>\<close>
  "dict_get d k dflt = (case map_of d k of None \<Rightarrow> dflt | Some v \<Rightarrow> v)"

definition dict_in :: "string \<Rightarrow> (string \<times> json) list \<Rightarrow> bool" where
  \<comment> \<open>\<open>k in d\<close>\<close>
  "dict_in k d = (map_of d k \<noteq> None)"

definition dict_index :: "(string \<times> json) list \<Rightarrow> string \<Rightarrow> exn + json" where
  \<comment> \<open>\<open>d[k]\<close>\<close>
  "dict_index d k = (case map_of d k of None \<Rightarrow> Inl KeyError | Some v \<Rightarrow> Inr v)"

fun subscript0 :: "json \<Rightarrow> exn + json" where
  \<comment> \<open>\<open>v[0]\<close>: a dict with str keys has no key \<open>0\<close>\<close>
  "subscript0 (JArr []) = Inl IndexError"
| "subscript0 (JArr (x # xs)) = Inr x"
| "subscript0 (JStr []) = Inl IndexError"
| "subscript0 (JStr (c # cs)) = Inr (JStr [c])"
| "subscript0 (JObj kvs) = Inl KeyError"
| "subscript0 JNull = Inl TypeError"
| "subscript0 (JBool b) = Inl TypeError"
| "subscript0 (JNum n) = Inl TypeError"

fun py_iter :: "json \<Rightarrow> exn + json list" where
  \<comment> \<open>the items \<open>for event in v\<close> visits: a dict yields its keys, a str its characters\<close>
  "py_iter (JArr xs) = Inr xs"
| "py_iter (JObj kvs) = Inr (map (\<lambda>kv. JStr (fst kv)) kvs)"
| "py_iter (JStr s) = Inr (map (\<lambda>c. JStr [c]) s)"
| "py_iter JNull = Inl TypeError"
| "py_iter (JBool b) = Inl TypeError"
| "py_iter (JNum n) = Inl TypeError"

definition py_int :: "rat \<Rightarrow> int" where
  \<comment> \<open>\<open>int(x)\<close> on a float truncates towards zero\<close>
  "py_int x = (if 0 \<le> x then \<lfloor>x\<rfloor> else \<lceil>x\<rceil>)"

definition digit_char :: "nat \<Rightarrow> char" where
  "digit_char d = ''0123456789'' ! d"

fun str_nat :: "nat \<Rightarrow> string" where
  "str_nat n = (if n < 10 then [digit_char n] else str_nat (n div 10) @ [digit_char (n mod 10)])"

declare str_nat.simps [simp del]

definition str_int :: "int \<Rightarrow> string" where
  \<comment> \<open>the decimal rendering an f-string gives an int\<close>
  "str_int i = (if i < 0 then CHR ''-'' # str_nat (nat (- i)) else str_nat (nat i))"

definition is_success :: "int \<Rightarrow> bool" where
  \<comment> \<open>httpx: \<open>raise_for_status\<close> raises unless the status is 2xx\<close>
  "is_success s = (200 \<le> s \<and> s \<le> 299)"

subsection \<open>The parsing loop of \<open>run_agent_session\<close> (lines 104 to 121)\<close>

definition no_final_response :: string where
  "no_final_response = ''Agent did not provide a final text response.''"

definition scan_parts :: "json \<Rightarrow> json \<Rightarrow> exn + json" where
  \<comment> \<open>lines 116 to 119: the inner \<open>if\<close> on \<open>parts\<close>\<close>
  "scan_parts final_response parts =
     (if truthy parts then
        (case subscript0 parts of
           Inl e \<Rightarrow> Inl e
         | Inr (JObj p0) \<Rightarrow>
             if dict_in ''text'' p0 then dict_index p0 ''text''
             else Inr final_response
         | Inr _ \<Rightarrow> Inr final_response)
      else Inr final_response)"

definition scan_content :: "json \<Rightarrow> json \<Rightarrow> exn + json" where
  \<comment> \<open>lines 109 to 115: the outer \<open>if\<close> on \<open>content\<close>\<close>
  "scan_content final_response content =
     (case content of
        JObj c \<Rightarrow>
          if truthy content \<and> dict_get c ''role'' JNull = JStr ''model'' \<and> dict_in ''parts'' c
          then scan_parts final_response (dict_get c ''parts'' (JArr []))
          else Inr final_response
      | _ \<Rightarrow> Inr final_response)"

definition scan_event :: "json \<Rightarrow> json \<Rightarrow> exn + json" where
  \<comment> \<open>one pass of the loop body: the new value of \<open>final_response\<close>, or the exception
      (\<open>event.get\<close> on a value that is not a dict)\<close>
  "scan_event final_response event =
     (case event of
        JObj ev \<Rightarrow> scan_content final_response (dict_get ev ''content'' JNull)
      | _ \<Rightarrow> Inl AttributeError)"

fun scan_events :: "json \<Rightarrow> json list \<Rightarrow> exn + json" where
  "scan_events final_response [] = Inr final_response"
| "scan_events final_response (event # events) =
     (case scan_event final_response event of
        Inl e \<Rightarrow> Inl e
      | Inr final_response' \<Rightarrow> scan_events final_response' events)"

definition extract_final :: "json \<Rightarrow> exn + json" where
  "extract_final events =
     (case py_iter events of
        Inl e \<Rightarrow> Inl e
      | Inr evs \<Rightarrow> scan_events (JStr no_final_response) evs)"

subsection \<open>The two outbound calls\<close>

definition json_headers :: "(string \<times> string) list" where
  "json_headers = [(''Content-Type'', ''application/json'')]"

definition do_post :: "world \<Rightarrow> post_call \<Rightarrow> exn + http_response" where
  \<comment> \<open>\<open>await client.post(...)\<close> followed by \<open>response.raise_for_status()\<close>\<close>
  "do_post w c =
     (case post w c of
        TimedOut \<Rightarrow> Inl TimeoutException
      | Failed \<Rightarrow> Inl RequestError
      | Responded r \<Rightarrow> if is_success (status_code r) then Inr r else Inl (HTTPStatusError r))"

definition new_session_id :: "world \<Rightarrow> string" where
  "new_session_id w = ''session-'' @ str_int (py_int (clock w))"

definition create_session_call :: "string \<Rightarrow> string \<Rightarrow> string \<Rightarrow> string \<Rightarrow> post_call" where
  "create_session_call agent_url user_id app_name sid =
     \<lparr>url = agent_url @ ''/apps/'' @ app_name @ ''/users/'' @ user_id @ ''/sessions/'' @ sid,
      headers = json_headers,
      payload = JObj [],
      timeout = 10\<rparr>"

definition create_session ::
  "world \<Rightarrow> string \<Rightarrow> string \<Rightarrow> string \<Rightarrow> (exn + string) \<times> post_call list" where
  "create_session w agent_url user_id app_name =
     (let sid = new_session_id w;
          c = create_session_call agent_url user_id app_name sid
      in (case do_post w c of Inl e \<Rightarrow> Inl e | Inr r \<Rightarrow> Inr sid, [c]))"

definition run_call :: "string \<Rightarrow> string \<Rightarrow> string \<Rightarrow> string \<Rightarrow> string \<Rightarrow> post_call" where
  "run_call agent_url msg user_id app_name sid =
     \<lparr>url = agent_url @ ''/run'',
      headers = json_headers,
      payload = JObj
        [(''app_name'', JStr app_name),
         (''user_id'', JStr user_id),
         (''session_id'', JStr sid),
         (''new_message'',
            JObj [(''role'', JStr ''user''), (''parts'', JArr [JObj [(''text'', JStr msg)]])])],
      timeout = 60\<rparr>"

definition run_agent_session ::
  "world \<Rightarrow> string \<Rightarrow> string \<Rightarrow> string \<Rightarrow> string \<Rightarrow> string \<Rightarrow> (exn + json) \<times> post_call list" where
  "run_agent_session w agent_url msg user_id app_name sid =
     (let c = run_call agent_url msg user_id app_name sid
      in (case do_post w c of
            Inl e \<Rightarrow> Inl e
          | Inr r \<Rightarrow>
              (case resp_json r of
                 None \<Rightarrow> Inl JSONDecodeError
               | Some events \<Rightarrow> extract_final events),
          [c]))"

subsection \<open>The endpoint\<close>

text \<open>The request and response models, \<open>AgentRequest\<close> and \<open>AgentResponse\<close>.\<close>

record AgentRequest =
  agent_name :: string
  message :: string
  user_id :: string
  session_id :: "string option"

record AgentResponse =
  response :: string
  response_session_id :: string
  response_agent_name :: string
  status :: string

definition handle_exn :: "exn \<Rightarrow> http_exception" where
  \<comment> \<open>the two \<open>except\<close> clauses of \<open>run_agent\<close>\<close>
  "handle_exn e =
     (case e of
        HTTPStatusError r \<Rightarrow>
          HTTPException (status_code r) (Text (''Error from ADK server: '' @ resp_text r))
      | _ \<Rightarrow> HTTPException 500 (StrOf e))"

definition make_response :: "json \<Rightarrow> string \<Rightarrow> string \<Rightarrow> exn + AgentResponse" where
  \<comment> \<open>\<open>AgentResponse(...)\<close>: the field \<open>response: str\<close> is validated (pydantic 2 takes a str only)\<close>
  "make_response response_text sid name =
     (case response_text of
        JStr s \<Rightarrow>
          Inr \<lparr>response = s, response_session_id = sid, response_agent_name = name,
               status = ''success''\<rparr>
      | _ \<Rightarrow> Inl ValidationError)"

definition run_agent ::
  "world \<Rightarrow> AgentRequest \<Rightarrow> (http_exception + AgentResponse) \<times> post_call list" where
  "run_agent w request =
     (case map_of AGENT_REGISTRY (agent_name request) of
        None \<Rightarrow>
          (Inl (HTTPException 404 (Text (''Agent '' @ [CHR 0x27] @ agent_name request @ [CHR 0x27] @ '' not found''))), [])
      | Some agent_url \<Rightarrow>
          (case create_session w agent_url (user_id request) (agent_name request) of
             (Inl e, calls) \<Rightarrow> (Inl (handle_exn e), calls)
           | (Inr sid, calls) \<Rightarrow>
               (case run_agent_session w agent_url (message request) (user_id request)
                       (agent_name request) sid of
                  (Inl e, calls') \<Rightarrow> (Inl (handle_exn e), calls @ calls')
                | (Inr response_text, calls') \<Rightarrow>
                    (case make_response response_text sid (agent_name request) of
                       Inl e \<Rightarrow> (Inl (handle_exn e), calls @ calls')
                     | Inr r \<Rightarrow> (Inr r, calls @ calls')))))"

subsection \<open>Eligible events, in the words of the specification\<close>

text \<open>
  An event is eligible when its content is an object whose role is \<open>model\<close>, that has a
  parts sequence, whose first part is an object carrying a text field. \<open>first_text\<close>
  is that text, and \<open>None\<close> for an event that is not eligible.
\<close>

fun part_text :: "json \<Rightarrow> json option" where
  "part_text (JObj p) = map_of p ''text''"
| "part_text _ = None"

fun parts_text :: "json \<Rightarrow> json option" where
  "parts_text (JArr (p # ps)) = part_text p"
| "parts_text _ = None"

fun content_text :: "json \<Rightarrow> json option" where
  "content_text (JObj c) =
     (if map_of c ''role'' = Some (JStr ''model'') then
        (case map_of c ''parts'' of Some parts \<Rightarrow> parts_text parts | None \<Rightarrow> None)
      else None)"
| "content_text _ = None"

fun first_text :: "json \<Rightarrow> json option" where
  "first_text (JObj ev) =
     (case map_of ev ''content'' of Some content \<Rightarrow> content_text content | None \<Rightarrow> None)"
| "first_text _ = None"

definition eligible :: "json \<Rightarrow> bool" where
  "eligible e = (first_text e \<noteq> None)"

text \<open>
  The events the loop body gets through without raising: the event is an object, and
  where the content is an object with role \<open>model\<close> and a parts field, that field is a
  list, a str or a falsy value (so that \<open>parts[0]\<close> is only evaluated where it is defined).
\<close>

fun parts_ok :: "json \<Rightarrow> bool" where
  "parts_ok (JArr xs) = True"
| "parts_ok (JStr s) = True"
| "parts_ok v = (\<not> truthy v)"

fun content_ok :: "json \<Rightarrow> bool" where
  "content_ok (JObj c) =
     (if map_of c ''role'' = Some (JStr ''model'') then
        (case map_of c ''parts'' of Some parts \<Rightarrow> parts_ok parts | None \<Rightarrow> True)
      else True)"
| "content_ok _ = True"

fun sound_event :: "json \<Rightarrow> bool" where
  "sound_event (JObj ev) =
     (case map_of ev ''content'' of Some content \<Rightarrow> content_ok content | None \<Rightarrow> True)"
| "sound_event _ = False"

definition keep :: "json \<Rightarrow> json option \<Rightarrow> json" where
  "keep acc t = (case t of None \<Rightarrow> acc | Some v \<Rightarrow> v)"

text \<open>
  Events written out for the statements below: \<open>event_with_parts ev c parts\<close> is an event
  with the further fields \<open>ev\<close> whose content has the parts list \<open>parts\<close> and the further
  fields \<open>c\<close>; \<open>text_event role t\<close> is \<open>{content: {role: role, parts: [{text: t}]}}\<close>;
  \<open>odd_parts_event v\<close> is a model event whose parts field is the value \<open>v\<close>.
\<close>

definition event_with_parts ::
  "(string \<times> json) list \<Rightarrow> (string \<times> json) list \<Rightarrow> json list \<Rightarrow> json" where
  "event_with_parts ev c parts = JObj ((''content'', JObj ((''parts'', JArr parts) # c)) # ev)"

definition text_event :: "string \<Rightarrow> string \<Rightarrow> json" where
  "text_event role t =
     JObj [(''content'', JObj [(''role'', JStr role), (''parts'', JArr [JObj [(''text'', JStr t)]])])]"

definition odd_parts_event :: "json \<Rightarrow> json" where
  "odd_parts_event v = JObj [(''content'', JObj [(''role'', JStr ''model''), (''parts'', v)])]"

text \<open>
  A world for concrete runs: the clock reads \<open>t\<close>, the ADK server answers the
  create-session POST (the one sent with the 10 second timeout) with \<open>on_create\<close> and the
  run POST with \<open>on_run\<close>.
\<close>

definition adk_world :: "rat \<Rightarrow> post_result \<Rightarrow> post_result \<Rightarrow> world" where
  "adk_world t on_create on_run =
     \<lparr>clock = t, post = (\<lambda>c. if timeout c = 10 then on_create else on_run)\<rparr>"

definition ok_reply :: "json \<Rightarrow> post_result" where
  "ok_reply j = Responded \<lparr>status_code = 200, resp_text = [], resp_json = Some j\<rparr>"

section \<open>The loop body, event by event\<close>

lemma scan_part_head:
  "(case x of
      JObj p0 \<Rightarrow> if dict_in ''text'' p0 then dict_index p0 ''text'' else Inr acc
    | _ \<Rightarrow> Inr acc) = (Inr (keep acc (part_text x)) :: exn + json)"
  by (cases x) (simp_all add: keep_def dict_in_def dict_index_def split: option.splits)

lemma scan_parts_ok:
  "parts_ok p \<Longrightarrow> scan_parts acc p = Inr (keep acc (parts_text p))"
proof (cases p)
  case (JArr xs)
  show ?thesis
  proof (cases xs)
    case Nil
    with JArr show ?thesis by (simp add: scan_parts_def keep_def)
  next
    case (Cons x xs')
    with JArr show ?thesis by (simp add: scan_parts_def scan_part_head)
  qed
next
  case (JStr s)
  then show ?thesis by (cases s) (simp_all add: scan_parts_def keep_def)
qed (simp_all add: scan_parts_def keep_def)

lemma scan_content_ok:
  "content_ok c \<Longrightarrow> scan_content acc c = Inr (keep acc (content_text c))"
proof (cases c)
  case (JObj d)
  assume ok: "content_ok c"
  show ?thesis
  proof (cases "map_of d ''role'' = Some (JStr ''model'')")
    case False
    with JObj show ?thesis
      by (auto simp add: scan_content_def dict_get_def keep_def split: option.splits)
  next
    case True
    show ?thesis
    proof (cases "map_of d ''parts''")
      case None
      with JObj True show ?thesis
        by (simp add: scan_content_def dict_get_def dict_in_def keep_def)
    next
      case (Some parts)
      with JObj True ok have "parts_ok parts" by simp
      from scan_parts_ok [OF this, of acc] JObj True Some show ?thesis
        by (auto simp add: scan_content_def dict_get_def dict_in_def)
    qed
  qed
qed (simp_all add: scan_content_def keep_def)

lemma scan_event_ok:
  "sound_event e \<Longrightarrow> scan_event acc e = Inr (keep acc (first_text e))"
proof (cases e)
  case (JObj ev)
  assume ok: "sound_event e"
  show ?thesis
  proof (cases "map_of ev ''content''")
    case None
    with JObj show ?thesis
      by (simp add: scan_event_def dict_get_def scan_content_def keep_def)
  next
    case (Some content)
    with JObj ok have "content_ok content" by simp
    from scan_content_ok [OF this, of acc] JObj Some show ?thesis
      by (simp add: scan_event_def dict_get_def)
  qed
qed simp_all

lemma scan_event_with_parts:
  "scan_event acc (event_with_parts ev c (p # ps)) =
     (if dict_get c ''role'' JNull = JStr ''model'' then Inr (keep acc (part_text p))
      else Inr acc)"
  by (simp add: event_with_parts_def scan_event_def scan_content_def scan_parts_def
      dict_get_def dict_in_def scan_part_head)

section \<open>The loop over the events\<close>

lemma scan_events_append:
  "scan_events acc (xs @ ys) =
     (case scan_events acc xs of Inl x \<Rightarrow> Inl x | Inr acc' \<Rightarrow> scan_events acc' ys)"
  by (induction xs arbitrary: acc) (simp_all split: sum.splits)

lemma scan_events_ineligible:
  "\<forall>x\<in>set es. sound_event x \<and> first_text x = None \<Longrightarrow> scan_events acc es = Inr acc"
  by (induction es) (simp_all add: scan_event_ok keep_def)

lemma scan_events_sound:
  "\<forall>x\<in>set es. sound_event x \<Longrightarrow> \<exists>r. scan_events acc es = Inr r"
  by (induction es arbitrary: acc) (simp_all add: scan_event_ok)

lemma scan_events_last:
  assumes "\<forall>x\<in>set (earlier @ e # later). sound_event x"
    and "first_text e = Some t"
    and "\<forall>x\<in>set later. first_text x = None"
  shows "scan_events acc (earlier @ e # later) = Inr t"
proof -
  from assms(1) have "\<forall>x\<in>set earlier. sound_event x" by simp
  then obtain r where r: "scan_events acc earlier = Inr r"
    using scan_events_sound by blast
  from assms(1) have e: "sound_event e" by simp
  from assms(1,3) have "\<forall>x\<in>set later. sound_event x \<and> first_text x = None" by simp
  then have "scan_events t later = Inr t" by (rule scan_events_ineligible)
  with r e assms(2) show ?thesis
    by (simp add: scan_events_append scan_event_ok keep_def)
qed

lemma extract_final_last:
  assumes "\<forall>x\<in>set (earlier @ e # later). sound_event x"
    and "first_text e = Some t"
    and "\<forall>x\<in>set later. \<not> eligible x"
  shows "extract_final (JArr (earlier @ e # later)) = Inr t"
  using assms scan_events_last [of earlier e later t "JStr no_final_response"]
  by (simp add: extract_final_def eligible_def)

text \<open>Concrete scans, evaluated once and used by the examples below.\<close>

lemmas scan_defs =
  extract_final_def scan_event_def scan_content_def scan_parts_def
  dict_get_def dict_in_def dict_index_def text_event_def odd_parts_event_def
  event_with_parts_def

section \<open>The final answer\<close>

text \<open>
  C1 (as amended). Take a list of events that the loop gets through without raising:
  every event is an object, and every parts field of a model content is a list, a str
  or falsy. If \<open>e\<close> is an eligible event with first-part text \<open>t\<close> and no event after it
  is eligible, the scan returns \<open>t\<close>, whatever events come before \<open>e\<close> and however many
  ineligible events stand before, between or after the eligible ones.
\<close>

theorem extract_final_last_eligible:
  assumes "\<forall>x\<in>set (earlier @ e # later). sound_event x"
    and "first_text e = Some t"
    and "\<forall>x\<in>set later. \<not> eligible x"
  shows "eligible e \<and> extract_final (JArr (earlier @ e # later)) = Inr t"
  using assms extract_final_last [of earlier e later t]
  by (simp add: eligible_def)

text \<open>
  The theorem at the example of the specification (user \<open>hi\<close>, model \<open>A\<close>, model \<open>B\<close>)
  followed by a model event with no parts and an event with no content.
\<close>

theorem extract_final_last_eligible_witness:
  "sound_event (text_event ''user'' ''hi'') \<and> sound_event (text_event ''model'' ''A'')
   \<and> sound_event (text_event ''model'' ''B'') \<and> sound_event (odd_parts_event (JArr []))
   \<and> sound_event (JObj [])
   \<and> first_text (text_event ''model'' ''B'') = Some (JStr ''B'')
   \<and> \<not> eligible (odd_parts_event (JArr [])) \<and> \<not> eligible (JObj [])
   \<and> extract_final (JArr [text_event ''user'' ''hi'', text_event ''model'' ''A'',
        text_event ''model'' ''B'', odd_parts_event (JArr []), JObj []]) = Inr (JStr ''B'')"
  using extract_final_last_eligible
    [of "[text_event ''user'' ''hi'', text_event ''model'' ''A'']" "text_event ''model'' ''B''"
        "[odd_parts_event (JArr []), JObj []]" "JStr ''B''"]
  by (simp add: eligible_def text_event_def odd_parts_event_def)

text \<open>
  Without the restriction the statement fails: after the eligible event \<open>A\<close> comes
  a model event whose parts field is the number 5. That event is not eligible, yet
  \<open>parts[0]\<close> raises \<open>TypeError\<close> and no text is returned.
\<close>

theorem extract_final_last_eligible_counterexample:
  "eligible (text_event ''model'' ''A'')
   \<and> \<not> eligible (odd_parts_event (JNum 5))
   \<and> extract_final (JArr [text_event ''model'' ''A'', odd_parts_event (JNum 5)]) = Inl TypeError
   \<and> extract_final (JArr [text_event ''model'' ''A'', odd_parts_event (JNum 5)]) \<noteq> Inr (JStr ''A'')"
  by (simp add: eligible_def scan_defs)

text \<open>
  C2 (as amended). If the loop gets through every event without raising and no event is
  eligible, the scan returns the initial value of \<open>final_response\<close>, which is the string
  \<open>Agent did not provide a final text response.\<close>
\<close>

theorem extract_final_no_eligible:
  assumes "\<forall>x\<in>set events. sound_event x \<and> \<not> eligible x"
  shows "extract_final (JArr events) = Inr (JStr ''Agent did not provide a final text response.'')"
  using assms scan_events_ineligible [of events "JStr no_final_response"]
  by (simp add: extract_final_def eligible_def no_final_response_def)

text \<open>The theorem at a user event followed by a model event with an empty parts list.\<close>

theorem extract_final_no_eligible_witness:
  "sound_event (text_event ''user'' ''hi'') \<and> \<not> eligible (text_event ''user'' ''hi'')
   \<and> sound_event (odd_parts_event (JArr [])) \<and> \<not> eligible (odd_parts_event (JArr []))
   \<and> extract_final (JArr [text_event ''user'' ''hi'', odd_parts_event (JArr [])])
       = Inr (JStr ''Agent did not provide a final text response.'')"
  using extract_final_no_eligible [of "[text_event ''user'' ''hi'', odd_parts_event (JArr [])]"]
  by (simp add: eligible_def text_event_def odd_parts_event_def)

text \<open>
  The value returned for a list with no eligible event is not the string
  \<open>no response produced\<close>; and a model event whose parts field is \<open>true\<close> is not
  eligible, yet the scan raises instead of returning.
\<close>

theorem extract_final_no_eligible_counterexample:
  "\<not> eligible (odd_parts_event (JArr []))
   \<and> extract_final (JArr [odd_parts_event (JArr [])]) \<noteq> Inr (JStr ''no response produced'')
   \<and> \<not> eligible (odd_parts_event (JBool True))
   \<and> extract_final (JArr [odd_parts_event (JBool True)]) = Inl TypeError"
  by (simp add: eligible_def scan_defs no_final_response_def)

text \<open>
  C3. Only the first element of an event's parts list is looked at: replacing the
  second and later parts of any event, anywhere in the list of events, by any other
  parts leaves the outcome of the scan unchanged; and a model event whose first part
  carries the text \<open>t\<close> yields \<open>t\<close> whatever its later parts are.
\<close>

theorem extract_final_first_part_only:
  "extract_final (JArr (earlier @ event_with_parts ev c (p # ps) # later)) =
   extract_final (JArr (earlier @ event_with_parts ev c (p # ps') # later))
   \<and> extract_final (JArr [event_with_parts ev_b ((''role'', JStr ''model'') # c_b)
         (JObj ((''text'', t) # q) # ps_b)]) = Inr t"
  by (simp add: extract_final_def scan_events_append scan_event_with_parts dict_get_def keep_def
      split: sum.splits)

text \<open>The theorem at an event with first part \<open>A\<close> and second part \<open>B\<close>: the answer is \<open>A\<close>.\<close>

theorem extract_final_first_part_only_witness:
  "extract_final (JArr [event_with_parts [] [(''role'', JStr ''model'')]
      [JObj [(''text'', JStr ''A'')], JObj [(''text'', JStr ''B'')]]]) = Inr (JStr ''A'')
   \<and> extract_final (JArr [event_with_parts [] [(''role'', JStr ''model'')]
      [JObj [(''text'', JStr ''A'')], JObj [(''text'', JStr ''B'')]]]) =
     extract_final (JArr [event_with_parts [] [(''role'', JStr ''model'')]
      [JObj [(''text'', JStr ''A'')]]])"
  using extract_final_first_part_only
    [where earlier = "[]" and ev = "[]" and c = "[(''role'', JStr ''model'')]"
       and p = "JObj [(''text'', JStr ''A'')]" and ps = "[JObj [(''text'', JStr ''B'')]]"
       and later = "[]" and ps' = "[]" and ev_b = "[]" and c_b = "[]" and t = "JStr ''A''"
       and q = "[]" and ps_b = "[JObj [(''text'', JStr ''B'')]]"]
  by auto

text \<open>
  C10 (as amended). Take a list of events that the loop gets through without raising,
  whose last eligible event \<open>e\<close> has first-part text \<open>t\<close>. An event is eligible whether
  or not its text is empty; if \<open>t\<close> is the empty string the scan returns the empty string;
  and the scan returns the initial string of \<open>final_response\<close> only if \<open>t\<close> is that very
  string, so no later ineligible event puts it back.
\<close>

theorem extract_final_empty_text:
  assumes "\<forall>x\<in>set (earlier @ e # later). sound_event x"
    and "first_text e = Some t"
    and "\<forall>x\<in>set later. \<not> eligible x"
  shows "eligible e
    \<and> (t = JStr [] \<longrightarrow> extract_final (JArr (earlier @ e # later)) = Inr (JStr []))
    \<and> (extract_final (JArr (earlier @ e # later)) = Inr (JStr no_final_response)
         \<longleftrightarrow> t = JStr no_final_response)"
  using assms extract_final_last [of earlier e later t]
  by (auto simp add: eligible_def)

text \<open>The theorem at model \<open>A\<close>, model with empty text, user \<open>bye\<close>.\<close>

theorem extract_final_empty_text_witness:
  "sound_event (text_event ''model'' ''A'') \<and> sound_event (text_event ''model'' [])
   \<and> sound_event (text_event ''user'' ''bye'')
   \<and> first_text (text_event ''model'' []) = Some (JStr [])
   \<and> \<not> eligible (text_event ''user'' ''bye'')
   \<and> eligible (text_event ''model'' [])
   \<and> extract_final (JArr [text_event ''model'' ''A'', text_event ''model'' [],
        text_event ''user'' ''bye'']) = Inr (JStr [])
   \<and> extract_final (JArr [text_event ''model'' ''A'', text_event ''model'' [],
        text_event ''user'' ''bye'']) \<noteq> Inr (JStr no_final_response)"
  using extract_final_empty_text
    [of "[text_event ''model'' ''A'']" "text_event ''model'' []" "[text_event ''user'' ''bye'']"
        "JStr []"]
  by (simp add: eligible_def text_event_def no_final_response_def)

text \<open>
  Two inputs where the statement without the amendments fails: an eligible event with
  empty text followed by a model event whose parts field is a non-empty dict (the
  subscript raises \<open>KeyError\<close>); and a single eligible event whose text is the initial
  string itself, which is returned although an event is eligible.
\<close>

theorem extract_final_empty_text_counterexample:
  "first_text (text_event ''model'' []) = Some (JStr [])
   \<and> \<not> eligible (odd_parts_event (JObj [(''0'', JStr ''x'')]))
   \<and> extract_final (JArr [text_event ''model'' [], odd_parts_event (JObj [(''0'', JStr ''x'')])])
       = Inl KeyError
   \<and> eligible (text_event ''model'' no_final_response)
   \<and> extract_final (JArr [text_event ''model'' no_final_response]) = Inr (JStr no_final_response)"
  by (simp add: eligible_def scan_defs)

section \<open>The endpoint and its two calls\<close>

text \<open>Values used by the concrete runs below, each computed once.\<close>

lemma str_int_1700000000: "str_int 1700000000 = ''1700000000''"
  by (simp add: str_int_def str_nat.simps digit_char_def)

lemma py_int_quarter: "py_int (6800000001 / 4) = 1700000000"
  by (simp add: py_int_def floor_eq_iff)

lemma py_int_three_quarters: "py_int (6800000003 / 4) = 1700000000"
  by (simp add: py_int_def floor_eq_iff)

lemma new_session_id_adk_world:
  "new_session_id (adk_world 1700000000 a b) = ''session-1700000000''"
  by (simp add: new_session_id_def adk_world_def py_int_def str_int_1700000000)

lemma registry_calc: "map_of AGENT_REGISTRY ''calc_agent'' = Some ''http://localhost:8000''"
  by (simp add: AGENT_REGISTRY_def)

lemma post_adk_world:
  "post (adk_world t a b) (create_session_call u1 u2 u3 u4) = a"
  "post (adk_world t a b) (run_call v1 v2 v3 v4 v5) = b"
  by (simp_all add: adk_world_def create_session_call_def run_call_def)

lemma extract_hi_A_B:
  "extract_final (JArr [text_event ''user'' ''hi'', text_event ''model'' ''A'',
     text_event ''model'' ''B'']) = Inr (JStr ''B'')"
  by (simp add: scan_defs)

lemma run_agent_hi_A_B:
  "run_agent
     (adk_world 1700000000 (ok_reply (JObj []))
        (ok_reply (JArr [text_event ''user'' ''hi'', text_event ''model'' ''A'',
           text_event ''model'' ''B''])))
     \<lparr>agent_name = ''calc_agent'', message = ''hi'', user_id = ''u1'', session_id = sid\<rparr>
   = (Inr \<lparr>response = ''B'', response_session_id = ''session-1700000000'',
          response_agent_name = ''calc_agent'', status = ''success''\<rparr>,
      [create_session_call ''http://localhost:8000'' ''u1'' ''calc_agent'' ''session-1700000000'',
       run_call ''http://localhost:8000'' ''hi'' ''u1'' ''calc_agent'' ''session-1700000000''])"
  by (simp add: run_agent_def registry_calc create_session_def new_session_id_adk_world
      post_adk_world do_post_def ok_reply_def is_success_def run_agent_session_def
      make_response_def extract_hi_A_B Let_def)

text \<open>
  C4. A request whose agent name is not a key of \<open>AGENT_REGISTRY\<close> fails with status 404
  and the detail \<open>Agent '<name>' not found\<close>, and no outbound call is made: the list of
  calls is empty, so neither the create-session POST nor the run POST is issued.
\<close>

theorem run_agent_unknown_agent:
  assumes "agent_name request \<notin> set (map fst AGENT_REGISTRY)"
  shows "run_agent w request =
     (Inl (HTTPException 404
        (Text (''Agent '' @ [CHR 0x27] @ agent_name request @ [CHR 0x27] @ '' not found''))), [])"
proof -
  from assms have "map_of AGENT_REGISTRY (agent_name request) = None"
    by (simp add: map_of_eq_None_iff)
  then show ?thesis by (simp add: run_agent_def)
qed

text \<open>The theorem at the agent name \<open>nobody\<close>.\<close>

theorem run_agent_unknown_agent_witness:
  "''nobody'' \<notin> set (map fst AGENT_REGISTRY) \<and>
   run_agent (adk_world 1700000000 (ok_reply (JObj [])) (ok_reply (JArr [])))
     \<lparr>agent_name = ''nobody'', message = ''hi'', user_id = ''u1'', session_id = None\<rparr> =
     (Inl (HTTPException 404 (Text ''Agent 'nobody' not found'')), [])"
  using run_agent_unknown_agent
    [of "\<lparr>agent_name = ''nobody'', message = ''hi'', user_id = ''u1'', session_id = None\<rparr>"
        "adk_world 1700000000 (ok_reply (JObj [])) (ok_reply (JArr []))"]
  by (simp add: AGENT_REGISTRY_def)

text \<open>
  C5. The agent is registered and the ADK server answers the create-session POST with
  a status outside 200..299. Then the request fails with an \<open>HTTPException\<close> that has
  the upstream status code, its detail is \<open>Error from ADK server: \<close> followed by the
  upstream body unchanged, and the only call made is the create-session POST: the run
  POST is never issued.
\<close>

theorem run_agent_create_session_fails:
  assumes "map_of AGENT_REGISTRY (agent_name request) = Some agent_url"
    and "post w (create_session_call agent_url (user_id request) (agent_name request)
           (new_session_id w)) = Responded r"
    and "\<not> is_success (status_code r)"
  shows "run_agent w request =
     (Inl (HTTPException (status_code r) (Text (''Error from ADK server: '' @ resp_text r))),
      [create_session_call agent_url (user_id request) (agent_name request) (new_session_id w)])"
  using assms
  by (simp add: run_agent_def create_session_def do_post_def handle_exn_def Let_def)

text \<open>The theorem at an upstream answer with status 500 and body \<open>boom\<close>.\<close>

theorem run_agent_create_session_fails_witness:
  "map_of AGENT_REGISTRY ''calc_agent'' = Some ''http://localhost:8000''
   \<and> \<not> is_success 500
   \<and> run_agent
       (adk_world 1700000000
          (Responded \<lparr>status_code = 500, resp_text = ''boom'', resp_json = None\<rparr>)
          (ok_reply (JArr [text_event ''model'' ''A''])))
       \<lparr>agent_name = ''calc_agent'', message = ''hi'', user_id = ''u1'', session_id = None\<rparr>
     = (Inl (HTTPException 500 (Text ''Error from ADK server: boom'')),
        [create_session_call ''http://localhost:8000'' ''u1'' ''calc_agent'' ''session-1700000000''])"
  using run_agent_create_session_fails
    [of "\<lparr>agent_name = ''calc_agent'', message = ''hi'', user_id = ''u1'', session_id = None\<rparr>"
        "''http://localhost:8000''"
        "adk_world 1700000000
          (Responded \<lparr>status_code = 500, resp_text = ''boom'', resp_json = None\<rparr>)
          (ok_reply (JArr [text_event ''model'' ''A'']))"
        "\<lparr>status_code = 500, resp_text = ''boom'', resp_json = None\<rparr>"]
  by (simp add: registry_calc post_adk_world new_session_id_adk_world is_success_def)

text \<open>
  C6 (as amended). The create-session POST is sent with a timeout of 10 and the run
  POST with a timeout of 60. When either call times out, the exception is caught by the
  general \<open>except Exception\<close> clause: the request fails with status 500 and \<open>str(e)\<close> as
  detail, which is what that clause gives any other exception that is not an HTTP status
  error (a transport failure, for one). There is no separate outcome for a timeout.
  No call is retried: the calls made are the create-session POST alone, or that POST
  followed by the run POST.
\<close>

theorem run_agent_timeout:
  assumes "map_of AGENT_REGISTRY (agent_name request) = Some agent_url"
    and "c_create = create_session_call agent_url (user_id request) (agent_name request)
           (new_session_id w)"
    and "c_run = run_call agent_url (message request) (user_id request) (agent_name request)
           (new_session_id w)"
    and "post w c_create = TimedOut \<or>
         (\<exists>r. post w c_create = Responded r \<and> is_success (status_code r) \<and>
              post w c_run = TimedOut)"
  shows "timeout c_create = 10 \<and> timeout c_run = 60
     \<and> fst (run_agent w request) = Inl (HTTPException 500 (StrOf TimeoutException))
     \<and> snd (run_agent w request) = (if post w c_create = TimedOut then [c_create] else [c_create, c_run])
     \<and> handle_exn TimeoutException = HTTPException 500 (StrOf TimeoutException)
     \<and> handle_exn RequestError = HTTPException 500 (StrOf RequestError)"
proof -
  have t: "timeout c_create = 10 \<and> timeout c_run = 60"
    using assms(2,3) by (simp add: create_session_call_def run_call_def)
  have h: "handle_exn TimeoutException = HTTPException 500 (StrOf TimeoutException)
     \<and> handle_exn RequestError = HTTPException 500 (StrOf RequestError)"
    by (simp add: handle_exn_def)
  from assms(4) have "run_agent w request =
      (Inl (HTTPException 500 (StrOf TimeoutException)),
       if post w c_create = TimedOut then [c_create] else [c_create, c_run])"
  proof
    assume "post w c_create = TimedOut"
    with assms(1,2) show ?thesis
      by (simp add: run_agent_def create_session_def do_post_def handle_exn_def Let_def)
  next
    assume "\<exists>r. post w c_create = Responded r \<and> is_success (status_code r) \<and>
              post w c_run = TimedOut"
    then obtain r where "post w c_create = Responded r" "is_success (status_code r)"
      "post w c_run = TimedOut" by blast
    with assms(1,2,3) show ?thesis
      by (simp add: run_agent_def create_session_def run_agent_session_def do_post_def
          handle_exn_def Let_def)
  qed
  with t h show ?thesis by simp
qed

text \<open>
  The theorem in two worlds: one where the create-session POST times out, one where it
  succeeds and the run POST times out.
\<close>

theorem run_agent_timeout_witness:
  "map_of AGENT_REGISTRY ''calc_agent'' = Some ''http://localhost:8000''
   \<and> post (adk_world 1700000000 TimedOut TimedOut)
        (create_session_call ''http://localhost:8000'' ''u1'' ''calc_agent'' ''session-1700000000'')
       = TimedOut
   \<and> run_agent (adk_world 1700000000 TimedOut TimedOut)
       \<lparr>agent_name = ''calc_agent'', message = ''hi'', user_id = ''u1'', session_id = None\<rparr>
     = (Inl (HTTPException 500 (StrOf TimeoutException)),
        [create_session_call ''http://localhost:8000'' ''u1'' ''calc_agent'' ''session-1700000000''])
   \<and> is_success 200
   \<and> post (adk_world 1700000000 (ok_reply (JObj [])) TimedOut)
        (run_call ''http://localhost:8000'' ''hi'' ''u1'' ''calc_agent'' ''session-1700000000'')
       = TimedOut
   \<and> run_agent (adk_world 1700000000 (ok_reply (JObj [])) TimedOut)
       \<lparr>agent_name = ''calc_agent'', message = ''hi'', user_id = ''u1'', session_id = None\<rparr>
     = (Inl (HTTPException 500 (StrOf TimeoutException)),
        [create_session_call ''http://localhost:8000'' ''u1'' ''calc_agent'' ''session-1700000000'',
         run_call ''http://localhost:8000'' ''hi'' ''u1'' ''calc_agent'' ''session-1700000000''])"
  using run_agent_timeout
    [of "\<lparr>agent_name = ''calc_agent'', message = ''hi'', user_id = ''u1'', session_id = None\<rparr>"
        "''http://localhost:8000''"
        "create_session_call ''http://localhost:8000'' ''u1'' ''calc_agent'' ''session-1700000000''"
        "adk_world 1700000000 TimedOut TimedOut"
        "run_call ''http://localhost:8000'' ''hi'' ''u1'' ''calc_agent'' ''session-1700000000''"]
    run_agent_timeout
    [of "\<lparr>agent_name = ''calc_agent'', message = ''hi'', user_id = ''u1'', session_id = None\<rparr>"
        "''http://localhost:8000''"
        "create_session_call ''http://localhost:8000'' ''u1'' ''calc_agent'' ''session-1700000000''"
        "adk_world 1700000000 (ok_reply (JObj [])) TimedOut"
        "run_call ''http://localhost:8000'' ''hi'' ''u1'' ''calc_agent'' ''session-1700000000''"]
  by (simp add: registry_calc post_adk_world new_session_id_adk_world is_success_def ok_reply_def
      prod_eq_iff)

text \<open>
  A timeout of either call surfaces with status 500, exactly as a transport failure and
  as a \<open>TypeError\<close> raised while parsing do: the timeout has no outcome of its own.
\<close>

theorem run_agent_timeout_counterexample:
  "fst (run_agent (adk_world 1700000000 TimedOut TimedOut)
       \<lparr>agent_name = ''calc_agent'', message = ''hi'', user_id = ''u1'', session_id = None\<rparr>)
     = Inl (HTTPException 500 (StrOf TimeoutException))
   \<and> fst (run_agent (adk_world 1700000000 Failed Failed)
       \<lparr>agent_name = ''calc_agent'', message = ''hi'', user_id = ''u1'', session_id = None\<rparr>)
     = Inl (HTTPException 500 (StrOf RequestError))
   \<and> fst (run_agent (adk_world 1700000000 (ok_reply (JObj [])) TimedOut)
       \<lparr>agent_name = ''calc_agent'', message = ''hi'', user_id = ''u1'', session_id = None\<rparr>)
     = Inl (HTTPException 500 (StrOf TimeoutException))
   \<and> fst (run_agent (adk_world 1700000000 (ok_reply (JObj [])) (ok_reply (JNum 1)))
       \<lparr>agent_name = ''calc_agent'', message = ''hi'', user_id = ''u1'', session_id = None\<rparr>)
     = Inl (HTTPException 500 (StrOf TypeError))"
  by (simp add: run_agent_def registry_calc create_session_def run_agent_session_def
      post_adk_world do_post_def handle_exn_def ok_reply_def is_success_def extract_final_def Let_def)

text \<open>
  C7. The \<open>session_id\<close> field of the request is never read: two requests that differ
  only in that field give the same result and the same outbound calls. For every
  registered agent the first outbound call is the create-session POST, made with the
  session id generated from the clock.
\<close>

theorem run_agent_ignores_session_id:
  "run_agent w (request\<lparr>session_id := s\<rparr>) = run_agent w (request\<lparr>session_id := s'\<rparr>)
   \<and> (map_of AGENT_REGISTRY (agent_name request) = Some agent_url \<longrightarrow>
        (\<exists>rest. snd (run_agent w request) =
           create_session_call agent_url (user_id request) (agent_name request) (new_session_id w)
           # rest))"
proof
  show "run_agent w (request\<lparr>session_id := s\<rparr>) = run_agent w (request\<lparr>session_id := s'\<rparr>)"
    by (simp add: run_agent_def cong: option.case_cong prod.case_cong sum.case_cong)
next
  show "map_of AGENT_REGISTRY (agent_name request) = Some agent_url \<longrightarrow>
        (\<exists>rest. snd (run_agent w request) =
           create_session_call agent_url (user_id request) (agent_name request) (new_session_id w)
           # rest)"
    by (simp add: run_agent_def create_session_def Let_def split: sum.splits prod.splits)
qed

text \<open>
  The theorem at a request that supplies the session id \<open>mine\<close>: it behaves as the request
  without one, and the session created is \<open>session-1700000000\<close>.
\<close>

theorem run_agent_ignores_session_id_witness:
  "map_of AGENT_REGISTRY ''calc_agent'' = Some ''http://localhost:8000''
   \<and> run_agent
       (adk_world 1700000000 (ok_reply (JObj []))
          (ok_reply (JArr [text_event ''user'' ''hi'', text_event ''model'' ''A'',
             text_event ''model'' ''B''])))
       \<lparr>agent_name = ''calc_agent'', message = ''hi'', user_id = ''u1'', session_id = Some ''mine''\<rparr>
     = run_agent
       (adk_world 1700000000 (ok_reply (JObj []))
          (ok_reply (JArr [text_event ''user'' ''hi'', text_event ''model'' ''A'',
             text_event ''model'' ''B''])))
       \<lparr>agent_name = ''calc_agent'', message = ''hi'', user_id = ''u1'', session_id = None\<rparr>
   \<and> snd (run_agent
       (adk_world 1700000000 (ok_reply (JObj []))
          (ok_reply (JArr [text_event ''user'' ''hi'', text_event ''model'' ''A'',
             text_event ''model'' ''B''])))
       \<lparr>agent_name = ''calc_agent'', message = ''hi'', user_id = ''u1'', session_id = Some ''mine''\<rparr>)
     = [create_session_call ''http://localhost:8000'' ''u1'' ''calc_agent'' ''session-1700000000'',
        run_call ''http://localhost:8000'' ''hi'' ''u1'' ''calc_agent'' ''session-1700000000'']"
  using run_agent_ignores_session_id
    [where w = "adk_world 1700000000 (ok_reply (JObj []))
          (ok_reply (JArr [text_event ''user'' ''hi'', text_event ''model'' ''A'',
             text_event ''model'' ''B'']))"
       and request = "\<lparr>agent_name = ''calc_agent'', message = ''hi'', user_id = ''u1'',
          session_id = Some ''mine''\<rparr>"
       and s = "Some ''mine''" and s' = None and agent_url = "''http://localhost:8000''"]
  by (simp add: registry_calc run_agent_hi_A_B)

text \<open>
  C8. The session id that \<open>create_session\<close> returns is \<open>session-\<close> followed by the decimal
  rendering of the clock reading truncated to whole seconds, and nothing else: two
  calls whose clock readings fall in the same second return the same id, whatever the
  agent, the user and the server's answer.
\<close>

theorem create_session_id_from_clock:
  assumes "py_int (clock w) = py_int (clock w')"
    and "fst (create_session w agent_url uid app) = Inr sid"
    and "fst (create_session w' agent_url' uid' app') = Inr sid'"
  shows "sid = ''session-'' @ str_int (py_int (clock w)) \<and> sid' = sid"
  using assms
  by (auto simp add: create_session_def new_session_id_def Let_def split: sum.splits)

text \<open>
  The theorem at the clock readings 1700000000.25 and 1700000000.75, for different
  users and agents: both ids are \<open>session-1700000000\<close>.
\<close>

theorem create_session_id_from_clock_witness:
  "py_int (clock (adk_world (6800000001 / 4) (ok_reply (JObj [])) Failed))
     = py_int (clock (adk_world (6800000003 / 4) (ok_reply JNull) Failed))
   \<and> fst (create_session (adk_world (6800000001 / 4) (ok_reply (JObj [])) Failed)
          ''http://localhost:8000'' ''u1'' ''calc_agent'') = Inr ''session-1700000000''
   \<and> fst (create_session (adk_world (6800000003 / 4) (ok_reply JNull) Failed)
          ''http://localhost:8000'' ''u2'' ''jarvis_agent'') = Inr ''session-1700000000''"
proof -
  have a: "clock (adk_world t x y) = t" for t x y
    by (simp add: adk_world_def)
  show ?thesis
    using create_session_id_from_clock
      [where w = "adk_world (6800000001 / 4) (ok_reply (JObj [])) Failed"
         and w' = "adk_world (6800000003 / 4) (ok_reply JNull) Failed"
         and agent_url = "''http://localhost:8000''" and uid = "''u1''" and app = "''calc_agent''"
         and agent_url' = "''http://localhost:8000''" and uid' = "''u2''"
         and app' = "''jarvis_agent''" and sid = "''session-1700000000''"
         and sid' = "''session-1700000000''"]
    by (simp add: a py_int_quarter py_int_three_quarters str_int_1700000000 create_session_def
        new_session_id_def post_adk_world do_post_def ok_reply_def is_success_def Let_def)
qed

text \<open>
  C9. Whenever \<open>run_agent\<close> returns a response, the agent is registered, the response
  field is the text the scan extracted from the events of the run POST's answer, the
  session id is the one \<open>create_session\<close> returned for this request, the agent name is
  the requested one and the status is \<open>success\<close>.
\<close>

theorem run_agent_success_response:
  assumes "fst (run_agent w request) = Inr r"
  shows "\<exists>agent_url sid reply events answer.
     map_of AGENT_REGISTRY (agent_name request) = Some agent_url \<and>
     fst (create_session w agent_url (user_id request) (agent_name request)) = Inr sid \<and>
     post w (run_call agent_url (message request) (user_id request) (agent_name request) sid)
       = Responded reply \<and>
     resp_json reply = Some events \<and>
     extract_final events = Inr (JStr answer) \<and>
     r = \<lparr>response = answer, response_session_id = sid,
          response_agent_name = agent_name request, status = ''success''\<rparr>"
  using assms
  apply (simp add: run_agent_def split: option.splits prod.splits sum.splits)
  apply (auto simp add: run_agent_session_def Let_def do_post_def make_response_def
          split: option.splits sum.splits post_result.splits json.splits if_splits)
  done

text \<open>The theorem at the run whose events are user \<open>hi\<close>, model \<open>A\<close>, model \<open>B\<close>.\<close>

theorem run_agent_success_response_witness:
  "fst (run_agent
       (adk_world 1700000000 (ok_reply (JObj []))
          (ok_reply (JArr [text_event ''user'' ''hi'', text_event ''model'' ''A'',
             text_event ''model'' ''B''])))
       \<lparr>agent_name = ''calc_agent'', message = ''hi'', user_id = ''u1'', session_id = None\<rparr>)
     = Inr \<lparr>response = ''B'', response_session_id = ''session-1700000000'',
          response_agent_name = ''calc_agent'', status = ''success''\<rparr>
   \<and> (\<exists>agent_url sid reply events answer.
     map_of AGENT_REGISTRY ''calc_agent'' = Some agent_url \<and>
     fst (create_session
       (adk_world 1700000000 (ok_reply (JObj []))
          (ok_reply (JArr [text_event ''user'' ''hi'', text_event ''model'' ''A'',
             text_event ''model'' ''B''])))
       agent_url ''u1'' ''calc_agent'') = Inr sid \<and>
     post (adk_world 1700000000 (ok_reply (JObj []))
          (ok_reply (JArr [text_event ''user'' ''hi'', text_event ''model'' ''A'',
             text_event ''model'' ''B''])))
       (run_call agent_url ''hi'' ''u1'' ''calc_agent'' sid) = Responded reply \<and>
     resp_json reply = Some events \<and>
     extract_final events = Inr (JStr answer) \<and>
     \<lparr>response = ''B'', response_session_id = ''session-1700000000'',
          response_agent_name = ''calc_agent'', status = ''success''\<rparr>
       = \<lparr>response = answer, response_session_id = sid,
          response_agent_name = ''calc_agent'', status = ''success''\<rparr>)"
  using run_agent_success_response
    [where w = "adk_world 1700000000 (ok_reply (JObj []))
          (ok_reply (JArr [text_event ''user'' ''hi'', text_event ''model'' ''A'',
             text_event ''model'' ''B'']))"
       and request = "\<lparr>agent_name = ''calc_agent'', message = ''hi'', user_id = ''u1'',
          session_id = None\<rparr>"
       and r = "\<lparr>response = ''B'', response_session_id = ''session-1700000000'',
          response_agent_name = ''calc_agent'', status = ''success''\<rparr>"]
  by (simp add: run_agent_hi_A_B)

end
